theory Spec2Isabelle
  imports Main "HOL-Library.Word"
begin

section \<open>Go values used by requests.go\<close>

text \<open>
  A Go slice is either nil or a (possibly empty) sequence; the two are told apart by
  JSON encoding and by callers, so the model keeps them apart: \<open>None\<close> is the nil slice.
  \<open>len\<close> is 0 for both, as in Go.
\<close>

type_synonym 'a slice = "'a list option"

definition len :: "'a slice \<Rightarrow> nat" where
  "len s = (case s of None \<Rightarrow> 0 | Some xs \<Rightarrow> length xs)"

definition elems :: "'a slice \<Rightarrow> 'a list" where
  "elems s = (case s of None \<Rightarrow> [] | Some xs \<Rightarrow> xs)"

text \<open>Go's built-in \<open>append(s, x)\<close>: the result is never nil.\<close>

definition append_go :: "'a slice \<Rightarrow> 'a \<Rightarrow> 'a slice" where
  "append_go s x = Some (elems s @ [x])"

text \<open>\<open>make([]T, 0, n)\<close>: an empty slice that is not nil; the capacity is not observable.\<close>

definition make_slice :: "nat \<Rightarrow> 'a slice" where
  "make_slice cap = Some []"

type_synonym byte = "8 word"

text \<open>
  Go error values. \<open>Opaque\<close> stands for any error produced outside requests.go (the
  transport, the response body, the output writer); \<open>Errorf\<close> is an error built by
  \<open>fmt.Errorf\<close> with the given text; the other three are the sentinels of package io.
\<close>

datatype error = EOF | ErrShortWrite | errInvalidWrite | Opaque string | Errorf string

text \<open>\<open>time.Time\<close> as seconds since the epoch; 0 is the "no expiration" value.\<close>

type_synonym Time = int

section \<open>Constants\<close>

definition StatusAvailable :: string where "StatusAvailable = ''available''"
definition StatusSubmitted :: string where "StatusSubmitted = ''submitted''"
definition StatusPending :: string where "StatusPending = ''pending''"
definition StatusApproved :: string where "StatusApproved = ''approved''"
definition StatusDenied :: string where "StatusDenied = ''denied''"
definition StatusExpired :: string where "StatusExpired = ''expired''"
definition StatusRevoked :: string where "StatusRevoked = ''revoked''"

lemmas Status_defs =
  StatusAvailable_def StatusSubmitted_def StatusPending_def StatusApproved_def
  StatusDenied_def StatusExpired_def StatusRevoked_def

section \<open>Structs\<close>

record RequestsSort =
  Field :: string
  Direction :: string

record RequestsPagination =
  Size :: "64 word"
  Page :: "64 word"

record RequestsFilter =
  Status :: string
  Filter :: string
  Pagination :: RequestsPagination
  Sort :: RequestsSort

record Request =
  RequestID :: string
  TLD :: string
  ULabel :: string
  Status :: string
  Created :: Time
  LastUpdated :: Time
  Expired :: Time
  SFTP :: bool

record RequestsResponse =
  Requests :: "Request slice"
  TotalRequests :: "64 word"

record TLDStatus =
  TLD :: string
  ULabel :: string
  CurrentStatus :: string
  SFTP :: bool

record RequestSubmission =
  AllTLDs :: bool
  TLDNames :: "string slice"
  Reason :: string
  TcVersion :: string
  AdditionalFTPIps :: "string slice"

record Terms =
  Version :: string
  Content :: string
  ContentURL :: string
  Created :: Time

text \<open>The zero values that \<open>new(T)\<close> and an omitted struct field give.\<close>

definition new_RequestsResponse :: RequestsResponse where
  "new_RequestsResponse = \<lparr>Requests = None, TotalRequests = 0\<rparr>"

definition new_Terms :: Terms where
  "new_Terms = \<lparr>Version = [], Content = [], ContentURL = [], Created = 0\<rparr>"

definition new_RequestSubmission :: RequestSubmission where
  "new_RequestSubmission =
     \<lparr>AllTLDs = False, TLDNames = None, Reason = [], TcVersion = [], AdditionalFTPIps = None\<rparr>"

section \<open>The client and its transport\<close>

text \<open>
  \<open>Client\<close>, \<open>jsonAPI\<close> and \<open>apiRequest\<close> are declared in another file of the package.
  They are taken as parameters: a client carries its \<open>BaseURL\<close> and the two transport
  methods, which act on a state \<open>'w\<close> standing for everything outside the process (the
  remote portal, the connection, the credentials). \<open>jsonAPI\<close> is called with response
  pointers of different types, so it appears once for each; it receives the value the
  pointer holds before the call and returns the value it holds afterwards, with the error.
  Nothing is assumed about what these methods do. \<open>GetRequestInfo\<close> and its
  \<open>RequestsInfo\<close> struct play no part in the properties below and are left out.
\<close>

datatype payload = PNil | PFilter "RequestsFilter option" | PSubmission RequestSubmission

text \<open>
  A response body is the finite sequence of results its \<open>Read\<close> method gives: the bytes
  of one read and its error, if any. Once the sequence is used up, \<open>Read\<close> gives no bytes
  and \<open>EOF\<close>.
\<close>

type_synonym read = "byte list \<times> error option"

record Response =
  Body :: "read list"

record 'w Client =
  BaseURL :: string
  jsonAPI_RequestsResponse ::
    "string \<Rightarrow> string \<Rightarrow> payload \<Rightarrow> RequestsResponse \<Rightarrow> 'w \<Rightarrow> (RequestsResponse \<times> error option) \<times> 'w"
  jsonAPI_TLDStatus ::
    "string \<Rightarrow> string \<Rightarrow> payload \<Rightarrow> TLDStatus slice \<Rightarrow> 'w \<Rightarrow> (TLDStatus slice \<times> error option) \<times> 'w"
  jsonAPI_Terms ::
    "string \<Rightarrow> string \<Rightarrow> payload \<Rightarrow> Terms \<Rightarrow> 'w \<Rightarrow> (Terms \<times> error option) \<times> 'w"
  jsonAPI_nil ::
    "string \<Rightarrow> string \<Rightarrow> payload \<Rightarrow> 'w \<Rightarrow> error option \<times> 'w"
  apiRequest ::
    "bool \<Rightarrow> string \<Rightarrow> string \<Rightarrow> byte list option \<Rightarrow> 'w \<Rightarrow> (error + Response) \<times> 'w"

section \<open>Catalog operations\<close>

definition GetRequests ::
  "'w Client \<Rightarrow> RequestsFilter option \<Rightarrow> 'w \<Rightarrow> (RequestsResponse \<times> error option) \<times> 'w" where
  "GetRequests c filter' w =
     (let requests = new_RequestsResponse;
          ((requests, err), w) =
             jsonAPI_RequestsResponse c ''POST'' ''/czds/requests/all'' (PFilter filter') requests w
      in ((requests, err), w))"

definition GetTLDStatus :: "'w Client \<Rightarrow> 'w \<Rightarrow> (TLDStatus slice \<times> error option) \<times> 'w" where
  "GetTLDStatus c w =
     (let requests = make_slice 20;
          ((requests, err), w) = jsonAPI_TLDStatus c ''GET'' ''/czds/tlds'' PNil requests w
      in ((requests, err), w))"

definition GetTerms :: "'w Client \<Rightarrow> 'w \<Rightarrow> (Terms \<times> error option) \<times> 'w" where
  "GetTerms c w =
     (let terms = new_Terms;
          ((terms, err), w) = jsonAPI_Terms c ''GET'' ''/czds/terms/condition'' PNil terms w
      in ((terms, err), w))"

definition SubmitRequest :: "'w Client \<Rightarrow> RequestSubmission \<Rightarrow> 'w \<Rightarrow> error option \<times> 'w" where
  "SubmitRequest c request w =
     (let (err, w) = jsonAPI_nil c ''POST'' ''/czds/requests/create'' (PSubmission request) w
      in (err, w))"

section \<open>Request helpers\<close>

definition RequestTLDs ::
  "'w Client \<Rightarrow> string slice \<Rightarrow> string \<Rightarrow> 'w \<Rightarrow> error option \<times> 'w" where
  "RequestTLDs c tlds reason w =
     (case GetTerms c w of
        ((terms, Some err), w) \<Rightarrow> (Some err, w)
      | ((terms, None), w) \<Rightarrow>
          (let request = new_RequestSubmission
                 \<lparr>TLDNames := tlds, Reason := reason, TcVersion := Version terms\<rparr>
           in SubmitRequest c request w))"

text \<open>The \<open>switch\<close> guarding the \<open>append\<close> in \<open>RequestAllTLDs\<close>.\<close>

definition requestable :: "TLDStatus \<Rightarrow> bool" where
  "requestable tld \<longleftrightarrow>
     CurrentStatus tld = StatusAvailable \<or> CurrentStatus tld = StatusExpired \<or>
     CurrentStatus tld = StatusDenied \<or> CurrentStatus tld = StatusRevoked"

text \<open>The \<open>for ... range status\<close> loop of \<open>RequestAllTLDs\<close>, with \<open>requestTLDs\<close> as accumulator.\<close>

fun RequestAllTLDs_loop :: "TLDStatus list \<Rightarrow> string slice \<Rightarrow> string slice" where
  "RequestAllTLDs_loop [] requestTLDs = requestTLDs"
| "RequestAllTLDs_loop (tld # status) requestTLDs =
     RequestAllTLDs_loop status
       (if requestable tld then append_go requestTLDs (TLDStatus.TLD tld) else requestTLDs)"

definition RequestAllTLDs ::
  "'w Client \<Rightarrow> string \<Rightarrow> 'w \<Rightarrow> (string slice \<times> error option) \<times> 'w" where
  "RequestAllTLDs c reason w =
     (case GetTLDStatus c w of
        ((status, Some err), w) \<Rightarrow> ((None, Some err), w)
      | ((status, None), w) \<Rightarrow>
          (let requestTLDs = RequestAllTLDs_loop (elems status) (make_slice 10)
           in if len requestTLDs = 0 then ((requestTLDs, None), w)
              else
                (case GetTerms c w of
                   ((terms, Some err), w) \<Rightarrow> ((None, Some err), w)
                 | ((terms, None), w) \<Rightarrow>
                     (let request = new_RequestSubmission
                            \<lparr>AllTLDs := True, TLDNames := requestTLDs, Reason := reason,
                             TcVersion := Version terms\<rparr>;
                          (err, w) = SubmitRequest c request w
                      in ((requestTLDs, err), w)))))"

section \<open>Report download\<close>







section \<open>Recording the remote calls\<close>

text \<open>
  Any client can be wrapped so that every transport call is appended to a log kept beside
  its state; the wrapped client answers as the original does.
\<close>

datatype call = JsonCall string string payload | ApiCall bool string string "byte list option"

definition traced :: "'w Client \<Rightarrow> ('w \<times> call list) Client" where
  "traced c =
     \<lparr>BaseURL = BaseURL c,
      jsonAPI_RequestsResponse = (\<lambda>m p b t (w, log).
         let (r, w) = jsonAPI_RequestsResponse c m p b t w in (r, (w, log @ [JsonCall m p b]))),
      jsonAPI_TLDStatus = (\<lambda>m p b t (w, log).
         let (r, w) = jsonAPI_TLDStatus c m p b t w in (r, (w, log @ [JsonCall m p b]))),
      jsonAPI_Terms = (\<lambda>m p b t (w, log).
         let (r, w) = jsonAPI_Terms c m p b t w in (r, (w, log @ [JsonCall m p b]))),
      jsonAPI_nil = (\<lambda>m p b (w, log).
         let (r, w) = jsonAPI_nil c m p b w in (r, (w, log @ [JsonCall m p b]))),
      apiRequest = (\<lambda>auth m u b (w, log).
         let (r, w) = apiRequest c auth m u b w in (r, (w, log @ [ApiCall auth m u b])))\<rparr>"

section \<open>JSON form of a RequestSubmission\<close>

text \<open>
  The struct tags of \<open>RequestSubmission\<close> fix how package encoding/json writes and reads
  it. JSON is taken as a tree; an object keeps its members in order. Strings are text, so
  escaping is not modelled.
\<close>

datatype json =
  JNull | JBool bool | JNum int | JStr string | JArr "json list" | JObj "(string \<times> json) list"


















section \<open>Scripted clients\<close>

text \<open>
  A client whose transport answers from a script, whatever it is asked, and has no state.
  The answer for a request list is computed from the value the response pointer holds.
\<close>

definition fake ::
  "(RequestsResponse \<Rightarrow> RequestsResponse \<times> error option) \<Rightarrow> (TLDStatus slice \<times> error option) \<Rightarrow>
   (Terms \<times> error option) \<Rightarrow> error option \<Rightarrow> (error + Response) \<Rightarrow> unit Client" where
  "fake requests tlds terms submit report =
     \<lparr>BaseURL = ''https://czds-api.icann.org'',
      jsonAPI_RequestsResponse = (\<lambda>m p b t w. (requests t, w)),
      jsonAPI_TLDStatus = (\<lambda>m p b t w. (tlds, w)),
      jsonAPI_Terms = (\<lambda>m p b t w. (terms, w)),
      jsonAPI_nil = (\<lambda>m p b w. (submit, w)),
      apiRequest = (\<lambda>a m u b w. (report, w))\<rparr>"

definition example_status :: "TLDStatus list" where
  "example_status =
     [\<lparr>TLD = ''bank'', ULabel = ''bank'', CurrentStatus = ''available'', SFTP = False\<rparr>,
      \<lparr>TLD = ''app'', ULabel = ''app'', CurrentStatus = ''pending'', SFTP = False\<rparr>,
      \<lparr>TLD = ''xyz'', ULabel = ''xyz'', CurrentStatus = ''revoked'', SFTP = False\<rparr>]"

definition v3 :: Terms where
  "v3 = new_Terms\<lparr>Version := ''v3''\<rparr>"

text \<open>The portal of the example: terms v3 are served; the submission is rejected.\<close>

definition client_rejecting :: "unit Client" where
  "client_rejecting =
     fake (\<lambda>t. (t, None)) (Some example_status, None) (v3, None) (Some (Opaque ''rejected''))
       (Inl (Opaque ''no report''))"

text \<open>The same portal when the terms cannot be fetched.\<close>

definition client_no_terms :: "unit Client" where
  "client_no_terms =
     fake (\<lambda>t. (t, None)) (Some example_status, None)
       (new_Terms, Some (Opaque ''terms unavailable'')) None (Inl (Opaque ''no report''))"

text \<open>A portal on which every TLD already has a request under way.\<close>

definition client_all_pending :: "unit Client" where
  "client_all_pending =
     fake (\<lambda>t. (t, None))
       (Some [\<lparr>TLD = ''app'', ULabel = ''app'', CurrentStatus = ''pending'', SFTP = False\<rparr>,
              \<lparr>TLD = ''dev'', ULabel = ''dev'', CurrentStatus = ''approved'', SFTP = True\<rparr>], None)
       (v3, None) None (Inl (Opaque ''no report''))"

text \<open>
  A portal whose state is the list of terms versions it will publish: each fetch of the
  terms serves the next one.
\<close>

definition client_rotating :: "string list Client" where
  "client_rotating =
     \<lparr>BaseURL = ''https://czds-api.icann.org'',
      jsonAPI_RequestsResponse = (\<lambda>m p b t w. ((t, None), w)),
      jsonAPI_TLDStatus = (\<lambda>m p b t w. ((Some example_status, None), w)),
      jsonAPI_Terms = (\<lambda>m p b t w.
         case w of [] \<Rightarrow> ((t, Some (Opaque ''terms unavailable'')), w)
         | v # vs \<Rightarrow> ((t\<lparr>Version := v\<rparr>, None), vs)),
      jsonAPI_nil = (\<lambda>m p b w. (None, w)),
      apiRequest = (\<lambda>a m u b w. (Inl (Opaque ''no report''), w))\<rparr>"


text \<open>A portal that answers a request list with one page of a longer result.\<close>

definition client_paged :: "unit Client" where
  "client_paged =
     fake (\<lambda>t. (t\<lparr>Requests :=
                    Some [\<lparr>RequestID = ''4711'', TLD = ''bank'', ULabel = ''bank'',
                           Status = ''Approved'', Created = 0, LastUpdated = 0, Expired = 0,
                           SFTP = False\<rparr>],
                  TotalRequests := 25\<rparr>, None))
       (Some example_status, None) (v3, None) None (Inl (Opaque ''no report''))"


section \<open>Properties of the request helpers\<close>

lemma RequestAllTLDs_loop_eq:
  "RequestAllTLDs_loop xs (Some acc) = Some (acc @ map TLDStatus.TLD (filter requestable xs))"
  by (induction xs arbitrary: acc) (simp_all add: append_go_def elems_def)

lemma requestable_iff:
  "requestable t \<longleftrightarrow> CurrentStatus t \<in> {''available'', ''expired'', ''denied'', ''revoked''}"
  by (auto simp: requestable_def Status_defs)

lemma GetTLDStatus_traced:
  "GetTLDStatus (traced c) (w, log) =
     (fst (GetTLDStatus c w), (snd (GetTLDStatus c w), log @ [JsonCall ''GET'' ''/czds/tlds'' PNil]))"
  by (simp add: GetTLDStatus_def traced_def split: prod.splits)

lemma GetTerms_traced:
  "GetTerms (traced c) (w, log) =
     (fst (GetTerms c w),
      (snd (GetTerms c w), log @ [JsonCall ''GET'' ''/czds/terms/condition'' PNil]))"
  by (simp add: GetTerms_def traced_def split: prod.splits)

lemma SubmitRequest_traced:
  "SubmitRequest (traced c) r (w, log) =
     (fst (SubmitRequest c r w),
      (snd (SubmitRequest c r w),
       log @ [JsonCall ''POST'' ''/czds/requests/create'' (PSubmission r)]))"
  by (simp add: SubmitRequest_def traced_def split: prod.splits)

text \<open>\<open>RequestAllTLDs\<close> after a successful listing, with the loop replaced by its result.\<close>

lemma RequestAllTLDs_names:
  assumes "GetTLDStatus c w = ((status, None), w1)"
  shows "RequestAllTLDs c reason w =
     (let names = map TLDStatus.TLD (filter requestable (elems status)) in
      if names = [] then ((Some [], None), w1)
      else (case GetTerms c w1 of
              ((terms, Some err), w2) \<Rightarrow> ((None, Some err), w2)
            | ((terms, None), w2) \<Rightarrow>
                ((Some names, fst (SubmitRequest c
                    \<lparr>AllTLDs = True, TLDNames = Some names, Reason = reason,
                     TcVersion = Version terms, AdditionalFTPIps = None\<rparr> w2)),
                 snd (SubmitRequest c
                    \<lparr>AllTLDs = True, TLDNames = Some names, Reason = reason,
                     TcVersion = Version terms, AdditionalFTPIps = None\<rparr> w2))))"
  using assms
  by (simp add: RequestAllTLDs_def make_slice_def RequestAllTLDs_loop_eq len_def Let_def
      new_RequestSubmission_def split: prod.splits option.splits)

lemma fake_simps:
  "GetTLDStatus (fake rq ts tm sb rp) w = (ts, w)"
  "GetTerms (fake rq ts tm sb rp) w = (tm, w)"
  "SubmitRequest (fake rq ts tm sb rp) r w = (sb, w)"
  by (simp_all add: fake_def GetTLDStatus_def GetTerms_def SubmitRequest_def split: prod.splits)

lemma example_names:
  "map TLDStatus.TLD (filter requestable example_status) = [''bank'', ''xyz'']"
  by (simp add: example_status_def requestable_def Status_defs)

text \<open>
  With the listing \<open>bank\<close> (available), \<open>app\<close> (pending), \<open>xyz\<close> (revoked) and a failing
  terms fetch, two TLDs are requestable and yet the sequence returned is nil: what
  claim C1 says of every listing fails here.
\<close>

theorem RequestAllTLDs_names_counterexample:
  "GetTLDStatus client_no_terms () = ((Some example_status, None), ()) \<and>
   map TLDStatus.TLD (filter requestable example_status) = [''bank'', ''xyz''] \<and>
   fst (fst (RequestAllTLDs client_no_terms ''renewal'' ())) \<noteq> Some [''bank'', ''xyz''] \<and>
   len (fst (fst (RequestAllTLDs client_no_terms ''renewal'' ()))) = 0"
proof -
  have l: "GetTLDStatus client_no_terms () = ((Some example_status, None), ())"
    by (simp add: client_no_terms_def fake_simps)
  have "RequestAllTLDs client_no_terms ''renewal'' () =
          ((None, Some (Opaque ''terms unavailable'')), ())"
    by (simp add: RequestAllTLDs_names [OF l] elems_def example_names)
       (simp add: client_no_terms_def fake_simps)
  with l show ?thesis
    by (simp add: example_names len_def)
qed

text \<open>
  Claim C1, amended. When the listing succeeds and the terms fetch does not fail (or is
  not reached because nothing is requestable), \<open>RequestAllTLDs\<close> returns exactly the TLD
  names of the listed entries whose \<open>CurrentStatus\<close> is available, expired, denied or
  revoked, in the order of the listing, and the returned sequence is empty if and only if
  the listing has no such entry.
\<close>

theorem RequestAllTLDs_returns_requestable:
  assumes "GetTLDStatus c w = ((status, None), w1)"
      and "(\<forall>t \<in> set (elems status). \<not> requestable t) \<or> snd (fst (GetTerms c w1)) = None"
  shows "fst (fst (RequestAllTLDs c reason w)) =
           Some (map TLDStatus.TLD
             (filter (\<lambda>t. CurrentStatus t \<in> {''available'', ''expired'', ''denied'', ''revoked''})
                (elems status))) \<and>
         (len (fst (fst (RequestAllTLDs c reason w))) = 0 \<longleftrightarrow>
            (\<forall>t \<in> set (elems status).
               CurrentStatus t \<notin> {''available'', ''expired'', ''denied'', ''revoked''}))"
proof -
  let ?names = "map TLDStatus.TLD (filter requestable (elems status))"
  have eq: "requestable =
      (\<lambda>t. CurrentStatus t \<in> {''available'', ''expired'', ''denied'', ''revoked''})"
    by (rule ext) (rule requestable_iff)
  have empty: "?names = [] \<longleftrightarrow> (\<forall>t \<in> set (elems status). \<not> requestable t)"
    by (simp add: filter_empty_conv)
  have "fst (fst (RequestAllTLDs c reason w)) = Some ?names"
    using assms(2) empty
    by (auto simp: RequestAllTLDs_names [OF assms(1)] Let_def split: prod.splits option.splits)
  then show ?thesis
    using empty by (simp add: len_def eq)
qed

theorem RequestAllTLDs_returns_requestable_witness:
  "GetTLDStatus client_rejecting () = ((Some example_status, None), ()) \<and>
   snd (fst (GetTerms client_rejecting ())) = None \<and>
   fst (fst (RequestAllTLDs client_rejecting ''renewal'' ())) = Some [''bank'', ''xyz''] \<and>
   len (fst (fst (RequestAllTLDs client_rejecting ''renewal'' ()))) \<noteq> 0"
proof -
  have h1: "GetTLDStatus client_rejecting () = ((Some example_status, None), ())"
    by (simp add: client_rejecting_def fake_simps)
  have h2: "snd (fst (GetTerms client_rejecting ())) = None"
    by (simp add: client_rejecting_def fake_simps)
  from RequestAllTLDs_returns_requestable [OF h1 disjI2 [OF h2], of "''renewal''"] h1 h2
  show ?thesis
    by (simp add: elems_def example_status_def len_def)
qed

text \<open>
  Claim C2. In every run of \<open>RequestTLDs\<close> and of \<open>RequestAllTLDs\<close>, a submission handed
  to the transport carries as \<open>TcVersion\<close> the \<open>Version\<close> of the terms that \<open>GetTerms\<close>
  returned in that run: fetched from the state the run started in (\<open>RequestTLDs\<close>) or the
  state its TLD listing left (\<open>RequestAllTLDs\<close>). The helpers take no other input from
  which a version could come.
\<close>

theorem TcVersion_is_fetched_Version:
  "(RequestTLDs (traced c) tlds reason (w, []) = (e, (w', log)) \<and>
      JsonCall m p (PSubmission s) \<in> set log
      \<longrightarrow> TcVersion s = Version (fst (fst (GetTerms c w)))) \<and>
   (RequestAllTLDs (traced c) reason' (v, []) = (r, (v', log')) \<and>
      JsonCall m' p' (PSubmission s') \<in> set log'
      \<longrightarrow> TcVersion s' = Version (fst (fst (GetTerms c (snd (GetTLDStatus c v))))))"
proof (intro conjI impI)
  assume a: "RequestTLDs (traced c) tlds reason (w, []) = (e, (w', log)) \<and>
      JsonCall m p (PSubmission s) \<in> set log"
  obtain terms terr w1 where g: "GetTerms c w = ((terms, terr), w1)"
    by (metis surj_pair)
  show "TcVersion s = Version (fst (fst (GetTerms c w)))"
    using a g
    by (cases terr)
       (auto simp: RequestTLDs_def GetTerms_traced SubmitRequest_traced new_RequestSubmission_def)
next
  assume a: "RequestAllTLDs (traced c) reason' (v, []) = (r, (v', log')) \<and>
      JsonCall m' p' (PSubmission s') \<in> set log'"
  obtain status serr v1 where g: "GetTLDStatus c v = ((status, serr), v1)"
    by (metis surj_pair)
  obtain terms terr v2 where t: "GetTerms c v1 = ((terms, terr), v2)"
    by (metis surj_pair)
  show "TcVersion s' = Version (fst (fst (GetTerms c (snd (GetTLDStatus c v)))))"
  proof (cases serr)
    case (Some x)
    with a g show ?thesis
      by (auto simp: RequestAllTLDs_def GetTLDStatus_traced)
  next
    case None
    with g have tr: "GetTLDStatus (traced c) (v, []) =
        ((status, None), (v1, [JsonCall ''GET'' ''/czds/tlds'' PNil]))"
      by (simp add: GetTLDStatus_traced)
    from a t g show ?thesis
      unfolding RequestAllTLDs_names [OF tr]
      by (cases terr)
         (auto simp: Let_def GetTerms_traced SubmitRequest_traced split: if_splits)
  qed
qed

text \<open>
  On the portal that has v3 and v4 still to publish, a run that starts after v3 has been
  served submits v4, in both helpers.
\<close>

theorem TcVersion_is_fetched_Version_witness:
  "RequestTLDs (traced client_rotating) (Some [''bank'']) ''renewal'' ([''v4''], []) =
     (None, ([],
       [JsonCall ''GET'' ''/czds/terms/condition'' PNil,
        JsonCall ''POST'' ''/czds/requests/create'' (PSubmission
          \<lparr>AllTLDs = False, TLDNames = Some [''bank''], Reason = ''renewal'',
           TcVersion = ''v4'', AdditionalFTPIps = None\<rparr>)])) \<and>
   Version (fst (fst (GetTerms client_rotating [''v4'']))) = ''v4'' \<and>
   RequestAllTLDs (traced client_rotating) ''renewal'' ([''v4''], []) =
     ((Some [''bank'', ''xyz''], None), ([],
       [JsonCall ''GET'' ''/czds/tlds'' PNil,
        JsonCall ''GET'' ''/czds/terms/condition'' PNil,
        JsonCall ''POST'' ''/czds/requests/create'' (PSubmission
          \<lparr>AllTLDs = True, TLDNames = Some [''bank'', ''xyz''], Reason = ''renewal'',
           TcVersion = ''v4'', AdditionalFTPIps = None\<rparr>)])) \<and>
   Version (fst (fst (GetTerms client_rotating (snd (GetTLDStatus client_rotating [''v4'']))))) = ''v4''"
proof -
  let ?s1 = "\<lparr>AllTLDs = False, TLDNames = Some [''bank''], Reason = ''renewal'',
           TcVersion = ''v4'', AdditionalFTPIps = None\<rparr>"
  let ?s2 = "\<lparr>AllTLDs = True, TLDNames = Some [''bank'', ''xyz''], Reason = ''renewal'',
           TcVersion = ''v4'', AdditionalFTPIps = None\<rparr>"
  let ?log1 = "[JsonCall ''GET'' ''/czds/terms/condition'' PNil,
        JsonCall ''POST'' ''/czds/requests/create'' (PSubmission ?s1)]"
  let ?log2 = "[JsonCall ''GET'' ''/czds/tlds'' PNil,
        JsonCall ''GET'' ''/czds/terms/condition'' PNil,
        JsonCall ''POST'' ''/czds/requests/create'' (PSubmission ?s2)]"
  have l: "GetTLDStatus client_rotating [''v4''] = ((Some example_status, None), [''v4''])"
    by (simp add: client_rotating_def GetTLDStatus_def)
  have t: "GetTerms client_rotating [''v4''] = ((new_Terms\<lparr>Version := ''v4''\<rparr>, None), [])"
    by (simp add: client_rotating_def GetTerms_def)
  have sb: "SubmitRequest client_rotating x [] = (None, [])" for x
    by (simp add: client_rotating_def SubmitRequest_def)
  have r1: "RequestTLDs (traced client_rotating) (Some [''bank'']) ''renewal'' ([''v4''], []) =
      (None, ([], ?log1))"
    by (simp add: RequestTLDs_def GetTerms_traced SubmitRequest_traced t sb
        new_RequestSubmission_def new_Terms_def)
  have tl: "GetTLDStatus (traced client_rotating) ([''v4''], []) =
      ((Some example_status, None), ([''v4''], [JsonCall ''GET'' ''/czds/tlds'' PNil]))"
    by (simp add: GetTLDStatus_traced l)
  have r2: "RequestAllTLDs (traced client_rotating) ''renewal'' ([''v4''], []) =
      ((Some [''bank'', ''xyz''], None), ([], ?log2))"
    by (simp add: RequestAllTLDs_names [OF tl] elems_def example_names GetTerms_traced
        SubmitRequest_traced t sb new_Terms_def Let_def)
  have m1: "JsonCall ''POST'' ''/czds/requests/create'' (PSubmission ?s1) \<in> set ?log1" by simp
  have m2: "JsonCall ''POST'' ''/czds/requests/create'' (PSubmission ?s2) \<in> set ?log2" by simp
  from TcVersion_is_fetched_Version [of client_rotating "Some [''bank'']" "''renewal''" "[''v4'']"
      None "[]" ?log1 "''POST''" "''/czds/requests/create''" ?s1
      "''renewal''" "[''v4'']" "(Some [''bank'', ''xyz''], None)" "[]" ?log2
      "''POST''" "''/czds/requests/create''" ?s2] r1 r2 m1 m2
  show ?thesis by simp
qed

text \<open>
  Claim C3. When the listing succeeds and no listed TLD is available, expired, denied or
  revoked, \<open>RequestAllTLDs\<close> returns the empty (non-nil) sequence and no error, and the
  listing is the only call the transport has received: the terms are not fetched and
  nothing is submitted.
\<close>

theorem RequestAllTLDs_nothing_requestable:
  assumes "GetTLDStatus c w = ((status, None), w1)"
      and "\<forall>t \<in> set (elems status).
             CurrentStatus t \<notin> {''available'', ''expired'', ''denied'', ''revoked''}"
  shows "RequestAllTLDs (traced c) reason (w, []) =
           ((Some [], None), (w1, [JsonCall ''GET'' ''/czds/tlds'' PNil]))"
proof -
  have t: "GetTLDStatus (traced c) (w, []) =
      ((status, None), (w1, [JsonCall ''GET'' ''/czds/tlds'' PNil]))"
    by (simp add: GetTLDStatus_traced assms(1))
  have "filter requestable (elems status) = []"
    using assms(2) by (simp add: filter_empty_conv requestable_iff)
  then show ?thesis
    by (simp add: RequestAllTLDs_names [OF t])
qed

theorem RequestAllTLDs_nothing_requestable_witness:
  "RequestAllTLDs (traced client_all_pending) ''renewal'' ((), []) =
     ((Some [], None), ((), [JsonCall ''GET'' ''/czds/tlds'' PNil]))"
proof -
  let ?status = "Some [\<lparr>TLD = ''app'', ULabel = ''app'', CurrentStatus = ''pending'', SFTP = False\<rparr>,
              \<lparr>TLD = ''dev'', ULabel = ''dev'', CurrentStatus = ''approved'', SFTP = True\<rparr>]"
  have h1: "GetTLDStatus client_all_pending () = ((?status, None), ())"
    by (simp add: client_all_pending_def fake_simps)
  have h2: "\<forall>t \<in> set (elems ?status).
             CurrentStatus t \<notin> {''available'', ''expired'', ''denied'', ''revoked''}"
    by (simp add: elems_def)
  from RequestAllTLDs_nothing_requestable [OF h1 h2] show ?thesis .
qed

text \<open>
  Claim C4. When the listing succeeds with at least one requestable TLD, the terms fetch
  succeeds and the submission fails, \<open>RequestAllTLDs\<close> returns the submission's error
  together with the sequence of requestable TLD names it tried to request.
\<close>

theorem RequestAllTLDs_submit_failure:
  assumes "GetTLDStatus c w = ((status, None), w1)"
      and "names = map TLDStatus.TLD (filter requestable (elems status))"
      and "names \<noteq> []"
      and "GetTerms c w1 = ((terms, None), w2)"
      and "SubmitRequest c \<lparr>AllTLDs = True, TLDNames = Some names, Reason = reason,
             TcVersion = Version terms, AdditionalFTPIps = None\<rparr> w2 = (Some err, w3)"
  shows "RequestAllTLDs c reason w = ((Some names, Some err), w3)"
  using assms(2-5) by (simp add: RequestAllTLDs_names [OF assms(1)])

theorem RequestAllTLDs_submit_failure_witness:
  "RequestAllTLDs client_rejecting ''renewal'' () =
     ((Some [''bank'', ''xyz''], Some (Opaque ''rejected'')), ())"
proof -
  have h1: "GetTLDStatus client_rejecting () = ((Some example_status, None), ())"
    by (simp add: client_rejecting_def fake_simps)
  have h2: "[''bank'', ''xyz''] =
      map TLDStatus.TLD (filter requestable (elems (Some example_status)))"
    by (simp add: elems_def example_names)
  have h3: "[''bank'', ''xyz''] \<noteq> ([] :: string list)" by simp
  have h4: "GetTerms client_rejecting () = ((v3, None), ())"
    by (simp add: client_rejecting_def fake_simps)
  have h5: "SubmitRequest client_rejecting
      \<lparr>AllTLDs = True, TLDNames = Some [''bank'', ''xyz''], Reason = ''renewal'',
       TcVersion = Version v3, AdditionalFTPIps = None\<rparr> () = (Some (Opaque ''rejected''), ())"
    by (simp add: client_rejecting_def fake_simps)
  from RequestAllTLDs_submit_failure [OF h1 h2 h3 h4 h5] show ?thesis .
qed

text \<open>
  Claim C9. When the listing succeeds with at least one requestable TLD and the terms
  fetch fails, \<open>RequestAllTLDs\<close> returns the error of the terms fetch with a nil
  sequence: the names already collected are not reported.
\<close>

theorem RequestAllTLDs_terms_failure:
  assumes "GetTLDStatus c w = ((status, None), w1)"
      and "filter requestable (elems status) \<noteq> []"
      and "GetTerms c w1 = ((terms, Some err), w2)"
  shows "RequestAllTLDs c reason w = ((None, Some err), w2)"
  using assms(2-3) by (simp add: RequestAllTLDs_names [OF assms(1)])

theorem RequestAllTLDs_terms_failure_witness:
  "filter requestable example_status \<noteq> [] \<and>
   RequestAllTLDs client_no_terms ''renewal'' () =
     ((None, Some (Opaque ''terms unavailable'')), ())"
proof -
  have h1: "GetTLDStatus client_no_terms () = ((Some example_status, None), ())"
    by (simp add: client_no_terms_def fake_simps)
  have h2: "filter requestable (elems (Some example_status)) \<noteq> []"
    by (simp add: elems_def example_status_def requestable_def Status_defs)
  have h3: "GetTerms client_no_terms () = ((new_Terms, Some (Opaque ''terms unavailable'')), ())"
    by (simp add: client_no_terms_def fake_simps)
  from RequestAllTLDs_terms_failure [OF h1 h2 h3] h2 show ?thesis
    by (simp add: elems_def)
qed


section \<open>Properties of the report download\<close>











section \<open>Properties of the JSON form\<close>














section \<open>Properties of the request list\<close>

text \<open>
  A transport that finds nothing to store and reports no error (the answer carries no
  request list) leaves the response as \<open>GetRequests\<close> made it: the call succeeds and its
  \<open>Requests\<close> is nil, not an empty sequence. What claim C7 says fails here.
\<close>

theorem GetRequests_nil_counterexample:
  "snd (fst (GetRequests client_rejecting None ())) = None \<and>
   Requests (fst (fst (GetRequests client_rejecting None ()))) = None \<and>
   Requests (fst (fst (GetRequests client_rejecting None ()))) \<noteq> Some []"
  by (simp add: GetRequests_def client_rejecting_def fake_def new_RequestsResponse_def)

text \<open>
  Claim C7, amended. \<open>GetRequests\<close> posts the filter to /czds/requests/all and returns,
  with the transport's error, exactly what the transport left in a response that started
  with a nil \<open>Requests\<close> and \<open>TotalRequests\<close> 0. It does not replace a nil \<open>Requests\<close> by an
  empty sequence, and it does not compare \<open>TotalRequests\<close> with the number of items, so
  the total may exceed it: a page of one item out of 25 is returned as it is.
\<close>

theorem GetRequests_returns_transport_result:
  "GetRequests c f w =
     jsonAPI_RequestsResponse c ''POST'' ''/czds/requests/all'' (PFilter f)
       \<lparr>Requests = None, TotalRequests = 0\<rparr> w \<and>
   snd (fst (GetRequests client_paged None ())) = None \<and>
   len (Requests (fst (fst (GetRequests client_paged None ())))) = 1 \<and>
   unat (TotalRequests (fst (fst (GetRequests client_paged None ())))) = 25"
  by (simp add: GetRequests_def new_RequestsResponse_def client_paged_def fake_def len_def
      split: prod.splits)

end
